theory Spec2Isabelle
  imports Complex_Main
begin

section \<open>Decoded payloads and failures\<close>

text \<open>
  The transport hands the client a decoded JSON value. A JSON object is a Python
  \<open>dict\<close>: an association list in insertion order whose keys are pairwise distinct.
  A JSON number with a fraction is carried as an opaque value; nothing in the client
  computes with it.
\<close>

datatype json =
    JNull
  | JBool bool
  | JInt int
  | JFloat real
  | JStr string
  | JList "json list"
  | JObj "(string \<times> json) list"

text \<open>
  Every \<open>raise\<close> is a value. The client defines no exception of its own: what reaches
  the caller is the interpreter's \<open>TypeError\<close>, \<open>ValueError\<close>, \<open>KeyError\<close> or
  \<open>RuntimeError\<close>, or whatever the transport raised. The three errors of a call with
  keyword arguments carry what their message is made of: the class whose \<open>__init__\<close> was
  called and the argument names quoted, as in
  \<^verbatim>\<open>IPSW.__init__() got an unexpected keyword argument 'error'\<close>,
  \<^verbatim>\<open>IPSW.__init__() got multiple values for argument 'self'\<close> and
  \<^verbatim>\<open>IPSW.__init__() missing 2 required positional arguments: 'url' and 'signed'\<close>.
  The message of a \<open>KeyError\<close> is the key alone.
\<close>

datatype type_error =
    UnexpectedKeyword string string
  | MultipleValues string string
  | MissingArguments string "string list"
  | NotAMapping
  | NotIterable
  | NotSubscriptable
  | StrptimeArgument

datatype value_error = DoesNotMatchFormat | UnconvertedData | OutOfRange

datatype runtime_error =
    NoCurrentEventLoop
  | EventLoopClosed
  | AlreadyRunning
  | AnotherLoopRunning

datatype error =
    TypeError type_error
  | ValueError value_error
  | KeyError string
  | RuntimeError runtime_error
  | TransportError string



section \<open>Timestamps\<close>

datatype tzinfo = tzutc

record datetime =
  year :: nat
  month :: nat
  day :: nat
  hour :: nat
  minute :: nat
  second :: nat
  tzinfo :: "tzinfo option"

text \<open>
  \<open>datetime.strptime(time, "%Y-%m-%dT%H:%M:%SZ")\<close> of the standard library. The format is
  compiled to the regular expression
  \<^verbatim>\<open>(?P<Y>\d\d\d\d)-(?P<m>1[0-2]|0[1-9]|[1-9])-(?P<d>3[0-1]|[1-2]\d|0[1-9]|[1-9]| [1-9])T\<close>
  \<^verbatim>\<open>(?P<H>2[0-3]|[0-1]\d|\d):(?P<M>[0-5]\d|\d):(?P<S>6[0-1]|[0-5]\d|\d)Z\<close>
  matched at the start of the string ignoring case; text left after the match is an
  error; the groups are converted with \<open>int\<close> and handed to the \<open>datetime\<close>
  constructor, which checks the calendar. Every group is made of digits (or a blank) and
  is followed by a literal that is neither, so a group is the text up to the next
  literal: \<open>split_on\<close> cuts there.
\<close>

definition digit :: "char \<Rightarrow> nat option" where
  "digit c = map_of
     [(CHR ''0'', 0), (CHR ''1'', 1), (CHR ''2'', 2), (CHR ''3'', 3), (CHR ''4'', 4),
      (CHR ''5'', 5), (CHR ''6'', 6), (CHR ''7'', 7), (CHR ''8'', 8), (CHR ''9'', 9)] c"

fun dec_acc :: "nat \<Rightarrow> string \<Rightarrow> nat option" where
  "dec_acc n [] = Some n"
| "dec_acc n (c # cs) =
     (case digit c of None \<Rightarrow> None | Some k \<Rightarrow> dec_acc (10 * n + k) cs)"

definition dec :: "string \<Rightarrow> nat option" where
  "dec s = (if s = [] then None else dec_acc 0 s)"

fun split_on :: "(char \<Rightarrow> bool) \<Rightarrow> string \<Rightarrow> (string \<times> string) option" where
  "split_on p [] = None"
| "split_on p (c # cs) =
     (if p c then Some ([], cs)
      else (case split_on p cs of None \<Rightarrow> None | Some (f, r) \<Rightarrow> Some (c # f, r)))"

definition num_field :: "nat \<Rightarrow> nat \<Rightarrow> string \<Rightarrow> nat option" where
  "num_field lo hi f =
     (if length f = 1 \<or> length f = 2
      then (case dec f of None \<Rightarrow> None
            | Some n \<Rightarrow> if lo \<le> n \<and> n \<le> hi then Some n else None)
      else None)"

definition year_field :: "string \<Rightarrow> nat option" where
  "year_field f = (if length f = 4 then dec f else None)"

definition day_field :: "string \<Rightarrow> nat option" where
  "day_field f =
     (case f of
        [b, c] \<Rightarrow> if b = CHR '' '' then num_field 1 9 [c] else num_field 1 31 f
      | _ \<Rightarrow> num_field 1 31 f)"

definition is_leap :: "nat \<Rightarrow> bool" where
  "is_leap y = (y mod 4 = 0 \<and> (y mod 100 \<noteq> 0 \<or> y mod 400 = 0))"

definition days_in_month :: "nat \<Rightarrow> nat \<Rightarrow> nat" where
  "days_in_month y m =
     (if m = 2 then (if is_leap y then 29 else 28)
      else if m = 4 \<or> m = 6 \<or> m = 9 \<or> m = 11 then 30 else 31)"

definition valid_datetime :: "nat \<Rightarrow> nat \<Rightarrow> nat \<Rightarrow> nat \<Rightarrow> nat \<Rightarrow> nat \<Rightarrow> bool" where
  "valid_datetime y m d H M S =
     (1 \<le> y \<and> y \<le> 9999 \<and> 1 \<le> m \<and> m \<le> 12 \<and> 1 \<le> d \<and> d \<le> days_in_month y m
      \<and> H \<le> 23 \<and> M \<le> 59 \<and> S \<le> 59)"

definition split_fields :: "string \<Rightarrow> (string list \<times> string) option" where
  "split_fields s =
     Option.bind (split_on (\<lambda>c. c = CHR ''-'') s) (\<lambda>(fy, r1).
     Option.bind (split_on (\<lambda>c. c = CHR ''-'') r1) (\<lambda>(fm, r2).
     Option.bind (split_on (\<lambda>c. c = CHR ''T'' \<or> c = CHR ''t'') r2) (\<lambda>(fd, r3).
     Option.bind (split_on (\<lambda>c. c = CHR '':'') r3) (\<lambda>(fH, r4).
     Option.bind (split_on (\<lambda>c. c = CHR '':'') r4) (\<lambda>(fM, r5).
     Option.bind (split_on (\<lambda>c. c = CHR ''Z'' \<or> c = CHR ''z'') r5) (\<lambda>(fS, r6).
     Some ([fy, fm, fd, fH, fM, fS], r6)))))))"

definition match_format ::
  "string \<Rightarrow> ((nat \<times> nat \<times> nat \<times> nat \<times> nat \<times> nat) \<times> string) option" where
  "match_format s =
     Option.bind (split_fields s) (\<lambda>(fs, rest).
     Option.bind (year_field (fs ! 0)) (\<lambda>y.
     Option.bind (num_field 1 12 (fs ! 1)) (\<lambda>m.
     Option.bind (day_field (fs ! 2)) (\<lambda>d.
     Option.bind (num_field 0 23 (fs ! 3)) (\<lambda>H.
     Option.bind (num_field 0 59 (fs ! 4)) (\<lambda>M.
     Option.bind (num_field 0 61 (fs ! 5)) (\<lambda>S.
     Some ((y, m, d, H, M, S), rest))))))))"

definition strptime :: "string \<Rightarrow> error + datetime" where
  "strptime s =
     (case match_format s of
        None \<Rightarrow> Inl (ValueError DoesNotMatchFormat)
      | Some ((y, m, d, H, M, S), rest) \<Rightarrow>
          if rest \<noteq> [] then Inl (ValueError UnconvertedData)
          else if valid_datetime y m d H M S
          then Inr \<lparr>year = y, month = m, day = d, hour = H, minute = M, second = S,
                    tzinfo = None\<rparr>
          else Inl (ValueError OutOfRange))"

definition to_dt :: "json \<Rightarrow> error + datetime option" where
  "to_dt time =
     (case time of
        JNull \<Rightarrow> Inr None
      | JStr s \<Rightarrow>
          (case strptime s of
             Inl e \<Rightarrow> Inl e
           | Inr obj \<Rightarrow> Inr (Some (obj\<lparr>tzinfo := Some tzutc\<rparr>)))
      | _ \<Rightarrow> Inl (TypeError StrptimeArgument))"

section \<open>Typed records\<close>

text \<open>
  The dataclasses of \<open>interface/ios.py\<close>. A dataclass checks no field type, so a field
  holds whatever decoded value the payload had; only the timestamp fields are rewritten,
  by \<open>__post_init__\<close>, to an absent value or an instant. The operations name the classes
  \<open>IPSW\<close>, \<open>OTAIPSW\<close>, \<open>IPSWKeys\<close>, \<open>Keys\<close> (\<open>KeysObject\<close>) and \<open>iDevice\<close>: they are
  \<open>IPSW\<close>, \<open>OTA\<close>, \<open>DeviceKeys\<close>, \<open>FirmwareKeys\<close> and \<open>iDevice\<close> here.
\<close>

record IPSW =
  "identifier" :: json
  buildid :: json
  version :: json
  url :: json
  filesize :: json
  sha1sum :: json
  md5sum :: json
  releasedate :: "datetime option"
  uploaddate :: "datetime option"
  signed :: json

record FirmwareKeys =
  image' :: json
  filename :: json
  kbag :: json
  key :: json
  iv :: json
  date :: "datetime option"

record OTA =
  "identifier" :: json
  buildid :: json
  version :: json
  url :: json
  filesize :: json
  prerequisitebuildid :: json
  prerequisiteversion :: json
  release_type :: json
  uploaddate :: "datetime option"
  releasedate :: "datetime option"
  signed :: json

text \<open>
  What a payload mapping can hold once an operation has put a converted list back into
  it: a decoded value, a list of firmware records, or a list of key records.
\<close>

datatype pyobject =
    Decoded json
  | IPSWList "IPSW list"
  | FirmwareKeysList "FirmwareKeys list"

record DeviceKeys =
  "identifier" :: pyobject
  buildid :: pyobject
  codename :: pyobject
  baseband :: pyobject
  updateramdiskexists :: pyobject
  restoreramdiskexists :: pyobject
  keys :: pyobject

record iDevice =
  name :: pyobject
  "identifier" :: pyobject
  boardconfig :: pyobject
  platform :: pyobject
  cpid :: pyobject
  bdid :: pyobject
  firmwares :: pyobject
  boards :: pyobject

definition IPSW_fields :: "string list" where
  "IPSW_fields = [''identifier'', ''buildid'', ''version'', ''url'', ''filesize'', ''sha1sum'',
     ''md5sum'', ''releasedate'', ''uploaddate'', ''signed'']"

definition FirmwareKeys_fields :: "string list" where
  "FirmwareKeys_fields = [''image'', ''filename'', ''kbag'', ''key'', ''iv'', ''date'']"

definition OTA_fields :: "string list" where
  "OTA_fields = [''identifier'', ''buildid'', ''version'', ''url'', ''filesize'',
     ''prerequisitebuildid'', ''prerequisiteversion'', ''release_type'', ''uploaddate'',
     ''releasedate'', ''signed'']"

definition DeviceKeys_fields :: "string list" where
  "DeviceKeys_fields = [''identifier'', ''buildid'', ''codename'', ''baseband'',
     ''updateramdiskexists'', ''restoreramdiskexists'', ''keys'']"

definition iDevice_fields :: "string list" where
  "iDevice_fields = [''name'', ''identifier'', ''boardconfig'', ''platform'', ''cpid'', ''bdid'',
     ''firmwares'', ''boards'']"

section \<open>Construction from keyword arguments\<close>

text \<open>
  \<open>C(**data)\<close> calls the generated \<open>__init__(self, f1, ..., fn)\<close>, no parameter of which has
  a default. The interpreter binds the keywords in the mapping's order and raises at the
  first one that is no parameter (or is \<open>self\<close>, already bound to the new instance); only
  then does it look for parameters left unbound, and raises one error listing all of them
  in declaration order. \<open>cls\<close> is the name of the class, for the message.
\<close>

fun bind_keywords :: "string \<Rightarrow> string list \<Rightarrow> (string \<times> 'v) list \<Rightarrow> error option" where
  "bind_keywords cls params [] = None"
| "bind_keywords cls params ((k, v) # kw) =
     (if k = ''self'' then Some (TypeError (MultipleValues cls k))
      else if k \<notin> set params then Some (TypeError (UnexpectedKeyword cls k))
      else bind_keywords cls params kw)"

definition missing_arguments :: "string list \<Rightarrow> (string \<times> 'v) list \<Rightarrow> string list" where
  "missing_arguments params kw = filter (\<lambda>f. map_of kw f = None) params"

definition bind_arguments ::
  "string \<Rightarrow> string list \<Rightarrow> (string \<times> 'v) list \<Rightarrow> error + (string \<Rightarrow> 'v)" where
  "bind_arguments cls params kw =
     (case bind_keywords cls params kw of
        Some e \<Rightarrow> Inl e
      | None \<Rightarrow>
          if missing_arguments params kw \<noteq> []
          then Inl (TypeError (MissingArguments cls (missing_arguments params kw)))
          else Inr (\<lambda>f. the (map_of kw f)))"

definition IPSW_init :: "(string \<times> json) list \<Rightarrow> error + IPSW" where
  "IPSW_init kw =
     (case bind_arguments ''IPSW'' IPSW_fields kw of
        Inl e \<Rightarrow> Inl e
      | Inr arg \<Rightarrow>
     (case to_dt (arg ''releasedate'') of
        Inl e \<Rightarrow> Inl e
      | Inr rd \<Rightarrow>
     (case to_dt (arg ''uploaddate'') of
        Inl e \<Rightarrow> Inl e
      | Inr ud \<Rightarrow>
          Inr \<lparr>IPSW.identifier = arg ''identifier'', IPSW.buildid = arg ''buildid'',
                IPSW.version = arg ''version'', IPSW.url = arg ''url'',
                IPSW.filesize = arg ''filesize'', sha1sum = arg ''sha1sum'',
                md5sum = arg ''md5sum'', IPSW.releasedate = rd, IPSW.uploaddate = ud,
                IPSW.signed = arg ''signed''\<rparr>)))"

definition FirmwareKeys_init :: "(string \<times> json) list \<Rightarrow> error + FirmwareKeys" where
  "FirmwareKeys_init kw =
     (case bind_arguments ''FirmwareKeys'' FirmwareKeys_fields kw of
        Inl e \<Rightarrow> Inl e
      | Inr arg \<Rightarrow>
     (case to_dt (arg ''date'') of
        Inl e \<Rightarrow> Inl e
      | Inr d \<Rightarrow>
          Inr \<lparr>image' = arg ''image'', filename = arg ''filename'', kbag = arg ''kbag'',
                key = arg ''key'', iv = arg ''iv'', date = d\<rparr>))"

definition OTA_init :: "(string \<times> json) list \<Rightarrow> error + OTA" where
  "OTA_init kw =
     (case bind_arguments ''OTA'' OTA_fields kw of
        Inl e \<Rightarrow> Inl e
      | Inr arg \<Rightarrow>
     (case to_dt (arg ''releasedate'') of
        Inl e \<Rightarrow> Inl e
      | Inr rd \<Rightarrow>
     (case to_dt (arg ''uploaddate'') of
        Inl e \<Rightarrow> Inl e
      | Inr ud \<Rightarrow>
          Inr \<lparr>OTA.identifier = arg ''identifier'', OTA.buildid = arg ''buildid'',
                OTA.version = arg ''version'', OTA.url = arg ''url'',
                OTA.filesize = arg ''filesize'',
                prerequisitebuildid = arg ''prerequisitebuildid'',
                prerequisiteversion = arg ''prerequisiteversion'',
                release_type = arg ''release_type'', OTA.uploaddate = ud,
                OTA.releasedate = rd, OTA.signed = arg ''signed''\<rparr>)))"

definition DeviceKeys_init :: "(string \<times> pyobject) list \<Rightarrow> error + DeviceKeys" where
  "DeviceKeys_init kw =
     (case bind_arguments ''DeviceKeys'' DeviceKeys_fields kw of
        Inl e \<Rightarrow> Inl e
      | Inr arg \<Rightarrow>
          Inr \<lparr>DeviceKeys.identifier = arg ''identifier'', DeviceKeys.buildid = arg ''buildid'',
                codename = arg ''codename'', baseband = arg ''baseband'',
                updateramdiskexists = arg ''updateramdiskexists'',
                restoreramdiskexists = arg ''restoreramdiskexists'', keys = arg ''keys''\<rparr>)"

definition iDevice_init :: "(string \<times> pyobject) list \<Rightarrow> error + iDevice" where
  "iDevice_init kw =
     (case bind_arguments ''iDevice'' iDevice_fields kw of
        Inl e \<Rightarrow> Inl e
      | Inr arg \<Rightarrow>
          Inr \<lparr>name = arg ''name'', iDevice.identifier = arg ''identifier'',
                boardconfig = arg ''boardconfig'', platform = arg ''platform'',
                cpid = arg ''cpid'', bdid = arg ''bdid'', firmwares = arg ''firmwares'',
                boards = arg ''boards''\<rparr>)"

section \<open>Normalization of a decoded payload\<close>

definition and_then :: "error + 'a \<Rightarrow> ('a \<Rightarrow> error + 'b) \<Rightarrow> error + 'b" where
  "and_then r f = (case r of Inl e \<Rightarrow> Inl e | Inr x \<Rightarrow> f x)"

text \<open>\<open>for x in data\<close>: a list gives its elements, a dict its keys, a string its characters.\<close>

definition iterate :: "json \<Rightarrow> error + json list" where
  "iterate data =
     (case data of
        JList xs \<Rightarrow> Inr xs
      | JObj kv \<Rightarrow> Inr (map (\<lambda>(k, v). JStr k) kv)
      | JStr s \<Rightarrow> Inr (map (\<lambda>c. JStr [c]) s)
      | _ \<Rightarrow> Inl (TypeError NotIterable))"

text \<open>\<open>**x\<close>: only a mapping can be spread into keyword arguments.\<close>

definition spread :: "json \<Rightarrow> error + (string \<times> json) list" where
  "spread x = (case x of JObj kv \<Rightarrow> Inr kv | _ \<Rightarrow> Inl (TypeError NotAMapping))"

definition decoded :: "(string \<times> json) list \<Rightarrow> (string \<times> pyobject) list" where
  "decoded kv = map (\<lambda>(k, v). (k, Decoded v)) kv"

text \<open>\<open>C(**x)\<close> for each record class. The two outer records are built from a mapping
  that may hold a converted list; a decoded mapping holds decoded values only.\<close>

definition IPSW_new :: "json \<Rightarrow> error + IPSW" where
  "IPSW_new x = and_then (spread x) IPSW_init"

definition FirmwareKeys_new :: "json \<Rightarrow> error + FirmwareKeys" where
  "FirmwareKeys_new x = and_then (spread x) FirmwareKeys_init"

definition OTA_new :: "json \<Rightarrow> error + OTA" where
  "OTA_new x = and_then (spread x) OTA_init"

definition DeviceKeys_new :: "json \<Rightarrow> error + DeviceKeys" where
  "DeviceKeys_new x = and_then (spread x) (\<lambda>kw. DeviceKeys_init (decoded kw))"

text \<open>A list comprehension builds its elements in order and stops at the first failure.\<close>

fun comprehension :: "('a \<Rightarrow> error + 'b) \<Rightarrow> 'a list \<Rightarrow> error + 'b list" where
  "comprehension f [] = Inr []"
| "comprehension f (x # xs) =
     (case f x of
        Inl e \<Rightarrow> Inl e
      | Inr y \<Rightarrow> (case comprehension f xs of Inl e \<Rightarrow> Inl e | Inr ys \<Rightarrow> Inr (y # ys)))"

text \<open>\<open>data[k] = v\<close> on a dict: an existing key keeps its place.\<close>

fun setitem :: "string \<Rightarrow> 'v \<Rightarrow> (string \<times> 'v) list \<Rightarrow> (string \<times> 'v) list" where
  "setitem k v [] = [(k, v)]"
| "setitem k v ((k', v') # kw) =
     (if k' = k then (k, v) # kw else (k', v') # setitem k v kw)"

text \<open>
  The part of each operation of \<open>HALFTIME\<close> that follows the \<open>await\<close>: what it does with
  the payload \<open>data\<close>. Subscripting \<open>data\<close> with a string works on a dict only.
\<close>

definition device_of :: "json \<Rightarrow> error + iDevice" where
  "device_of data =
     (case data of
        JObj kv \<Rightarrow>
          (case map_of kv ''firmwares'' of
             None \<Rightarrow> Inl (KeyError ''firmwares'')
           | Some fws \<Rightarrow>
               and_then (iterate fws) (\<lambda>xs.
               and_then (comprehension IPSW_new xs)
                 (\<lambda>firmware_list.
               iDevice_init (setitem ''firmwares'' (IPSWList firmware_list) (decoded kv)))))
      | _ \<Rightarrow> Inl (TypeError NotSubscriptable))"

definition ipsw_of :: "json \<Rightarrow> error + IPSW" where
  "ipsw_of data = IPSW_new data"

definition ipsw_version_of :: "json \<Rightarrow> error + IPSW list" where
  "ipsw_version_of data =
     and_then (iterate data) (comprehension IPSW_new)"

definition keys_device_of :: "json \<Rightarrow> error + DeviceKeys list" where
  "keys_device_of data =
     and_then (iterate data)
       (comprehension DeviceKeys_new)"

definition keys_of :: "json \<Rightarrow> error + DeviceKeys" where
  "keys_of data =
     (case data of
        JObj kv \<Rightarrow>
          (case map_of kv ''keys'' of
             None \<Rightarrow> Inl (KeyError ''keys'')
           | Some ks \<Rightarrow>
               and_then (iterate ks) (\<lambda>xs.
               and_then (comprehension FirmwareKeys_new xs)
                 (\<lambda>key_list.
               DeviceKeys_init (setitem ''keys'' (FirmwareKeysList key_list) (decoded kv)))))
      | _ \<Rightarrow> Inl (TypeError NotSubscriptable))"

definition ota_of :: "json \<Rightarrow> error + OTA" where
  "ota_of data = OTA_new data"

definition ota_version_of :: "json \<Rightarrow> error + OTA list" where
  "ota_version_of data =
     and_then (iterate data) (comprehension OTA_new)"

section \<open>Collaborators and coroutines\<close>

text \<open>
  The transport (\<open>Parser.ipsw\<close> for \<open>HALFTIME\<close>, \<open>AsyncRequest.ipsw\<close> for the class of
  \<open>src/ipsw.py\<close>) and the catalog scanner \<open>SWSCAN\<close> are collaborators: parameters that
  give, for each request, the decoded payload or the failure they raise. The world
  records the requests made so far, what was printed, and what \<open>asyncio\<close> keeps for the
  calling thread: the loop running on it (\<open>running\<close>), the loop its policy holds as
  current (\<open>current\<close>), whether \<open>set_event_loop\<close> was ever called on it (\<open>set_called\<close>),
  whether it is the main thread, and the loops that were closed. Loops are numbered in
  the order of their construction: \<open>created\<close> counts the constructions, and \<open>driven\<close>
  lists the loops that were started, in order.
\<close>

datatype request =
    ParserIpsw string string
  | HTTPIpsw string string
  | GetProducts "string option"
  | GetPackage "string option" "string option" "string option" "string option"

record collaborators =
  Parser_ipsw_response :: "string \<Rightarrow> string \<Rightarrow> error + json"
  HTTP_ipsw_response :: "string \<Rightarrow> string \<Rightarrow> error + json"
  get_products_response :: "string option \<Rightarrow> error + json"
  get_package_response ::
    "string option \<Rightarrow> string option \<Rightarrow> string option \<Rightarrow> string option \<Rightarrow> error + json"

record world =
  requests :: "request list"
  stdout :: "json list"
  running :: "nat option"
  current :: "nat option"
  set_called :: bool
  main_thread :: bool
  closed :: "nat set"
  created :: nat
  driven :: "nat list"

text \<open>
  A coroutine object is a computation that has not run: it runs, on a world, when it is
  awaited or driven by a loop.
\<close>

type_synonym 'a coroutine = "world \<Rightarrow> (error + 'a) \<times> world"

definition perform :: "request \<Rightarrow> error + json \<Rightarrow> json coroutine" where
  "perform rq response w = (response, w\<lparr>requests := requests w @ [rq]\<rparr>)"

definition Parser_ipsw :: "collaborators \<Rightarrow> string \<Rightarrow> string \<Rightarrow> json coroutine" where
  "Parser_ipsw cl method endpoint =
     perform (ParserIpsw method endpoint) (Parser_ipsw_response cl method endpoint)"

definition HTTP_ipsw :: "collaborators \<Rightarrow> string \<Rightarrow> string \<Rightarrow> json coroutine" where
  "HTTP_ipsw cl endpoint return_type =
     perform (HTTPIpsw endpoint return_type) (HTTP_ipsw_response cl endpoint return_type)"

definition returning :: "json coroutine \<Rightarrow> (json \<Rightarrow> error + 'a) \<Rightarrow> 'a coroutine" where
  "returning co f w =
     (case co w of (Inl e, w') \<Rightarrow> (Inl e, w') | (Inr data, w') \<Rightarrow> (f data, w'))"

section \<open>The operation set\<close>

definition HALFTIME_device :: "collaborators \<Rightarrow> string \<Rightarrow> iDevice coroutine" where
  "HALFTIME_device cl ident =
     returning (Parser_ipsw cl ''GET'' (''/device/'' @ ident)) device_of"

definition HALFTIME_ipsw :: "collaborators \<Rightarrow> string \<Rightarrow> string \<Rightarrow> IPSW coroutine" where
  "HALFTIME_ipsw cl ident build =
     returning (Parser_ipsw cl ''GET'' (''/ipsw/'' @ ident @ ''/'' @ build)) ipsw_of"

definition HALFTIME_ipsw_version :: "collaborators \<Rightarrow> string \<Rightarrow> IPSW list coroutine" where
  "HALFTIME_ipsw_version cl ver =
     returning (Parser_ipsw cl ''GET'' (''/ipsw/'' @ ver)) ipsw_version_of"

definition HALFTIME_keys_device :: "collaborators \<Rightarrow> string \<Rightarrow> DeviceKeys list coroutine" where
  "HALFTIME_keys_device cl ident =
     returning (Parser_ipsw cl ''GET'' (''/keys/device/'' @ ident)) keys_device_of"

definition HALFTIME_keys :: "collaborators \<Rightarrow> string \<Rightarrow> string \<Rightarrow> DeviceKeys coroutine" where
  "HALFTIME_keys cl ident build =
     returning (Parser_ipsw cl ''GET'' (''/keys/ipsw/'' @ ident @ ''/'' @ build)) keys_of"

definition HALFTIME_ota :: "collaborators \<Rightarrow> string \<Rightarrow> string \<Rightarrow> OTA coroutine" where
  "HALFTIME_ota cl ident build =
     returning (Parser_ipsw cl ''GET'' (''/ota/'' @ ident @ ''/'' @ build)) ota_of"

definition HALFTIME_ota_version :: "collaborators \<Rightarrow> string \<Rightarrow> OTA list coroutine" where
  "HALFTIME_ota_version cl ver =
     returning (Parser_ipsw cl ''GET'' (''/ota/'' @ ver)) ota_version_of"

definition HALFTIME_available_macos :: "collaborators \<Rightarrow> string option \<Rightarrow> json coroutine" where
  "HALFTIME_available_macos cl seed =
     returning (perform (GetProducts seed) (get_products_response cl seed)) Inr"

definition HALFTIME_get_macos ::
  "collaborators \<Rightarrow> string option \<Rightarrow> string option \<Rightarrow> string option \<Rightarrow> string option
     \<Rightarrow> json coroutine" where
  "HALFTIME_get_macos cl build ver product_id seed =
     returning (perform (GetPackage build ver product_id seed)
                  (get_package_response cl build ver product_id seed)) Inr"

text \<open>
  \<open>ota_docs\<close> of \<open>src/ipsw.py\<close>: the text is fetched and printed; the function has no
  \<open>return\<close>, so its value is \<open>None\<close>.
\<close>

definition ota_docs :: "collaborators \<Rightarrow> string \<Rightarrow> string \<Rightarrow> json coroutine" where
  "ota_docs cl ident ver w =
     (case HTTP_ipsw cl (''/ota/documentation/'' @ ident @ ''/'' @ ver) ''text'' w of
        (Inl e, w') \<Rightarrow> (Inl e, w')
      | (Inr data, w') \<Rightarrow> (Inr JNull, w'\<lparr>stdout := stdout w' @ [data]\<rparr>))"

text \<open>An operation with its arguments, and the typed result of each.\<close>

datatype operation =
    Device string
  | Ipsw string string
  | IpswVersion string
  | KeysDevice string
  | Keys string string
  | Ota string string
  | OtaVersion string
  | AvailableMacos "string option"
  | GetMacos "string option" "string option" "string option" "string option"

datatype result =
    DeviceResult iDevice
  | IPSWResult IPSW
  | IPSWListResult "IPSW list"
  | DeviceKeysListResult "DeviceKeys list"
  | DeviceKeysResult DeviceKeys
  | OTAResult OTA
  | OTAListResult "OTA list"
  | CatalogResult json

definition tagged :: "('a \<Rightarrow> result) \<Rightarrow> 'a coroutine \<Rightarrow> result coroutine" where
  "tagged t co w = (case co w of (Inl e, w') \<Rightarrow> (Inl e, w') | (Inr x, w') \<Rightarrow> (Inr (t x), w'))"

fun HALFTIME_method :: "collaborators \<Rightarrow> operation \<Rightarrow> result coroutine" where
  "HALFTIME_method cl (Device i) = tagged DeviceResult (HALFTIME_device cl i)"
| "HALFTIME_method cl (Ipsw i b) = tagged IPSWResult (HALFTIME_ipsw cl i b)"
| "HALFTIME_method cl (IpswVersion v) = tagged IPSWListResult (HALFTIME_ipsw_version cl v)"
| "HALFTIME_method cl (KeysDevice i) = tagged DeviceKeysListResult (HALFTIME_keys_device cl i)"
| "HALFTIME_method cl (Keys i b) = tagged DeviceKeysResult (HALFTIME_keys cl i b)"
| "HALFTIME_method cl (Ota i b) = tagged OTAResult (HALFTIME_ota cl i b)"
| "HALFTIME_method cl (OtaVersion v) = tagged OTAListResult (HALFTIME_ota_version cl v)"
| "HALFTIME_method cl (AvailableMacos s) = tagged CatalogResult (HALFTIME_available_macos cl s)"
| "HALFTIME_method cl (GetMacos b v p s) = tagged CatalogResult (HALFTIME_get_macos cl b v p s)"

section \<open>The dual-mode facade\<close>

text \<open>
  The three functions of \<open>asyncio\<close> the facade calls, as the standard library defines
  them.

  \<^item> \<open>get_event_loop()\<close> returns the loop running on the thread if there is one.
    Otherwise it asks the policy: on the main thread, when no loop is current and
    \<open>set_event_loop\<close> was never called, the policy constructs a loop and makes it
    current; then it returns the current loop, and raises \<open>RuntimeError\<close> when there is
    none (a thread other than the main one, or a thread whose loop was unset, as
    \<open>asyncio.run\<close> does when it ends).
  \<open>loop.is_running()\<close> tells whether that loop is the one running.
  \<^item> \<open>loop.run_until_complete(co)\<close> raises \<open>RuntimeError\<close> when the loop is closed, when
    it is already running, and when another loop is running on the thread; otherwise it
    runs the loop, which drives the coroutine to its result or failure, and stops it.
\<close>

definition get_event_loop :: "world \<Rightarrow> (error + nat) \<times> world" where
  "get_event_loop w =
     (case running w of
        Some l \<Rightarrow> (Inr l, w)
      | None \<Rightarrow>
          (if current w = None \<and> \<not> set_called w \<and> main_thread w
           then (Inr (created w),
                 w\<lparr>current := Some (created w), set_called := True, created := created w + 1\<rparr>)
           else (case current w of
                   None \<Rightarrow> (Inl (RuntimeError NoCurrentEventLoop), w)
                 | Some l \<Rightarrow> (Inr l, w))))"

definition is_running :: "nat \<Rightarrow> world \<Rightarrow> bool" where
  "is_running l w = (running w = Some l)"

definition run_until_complete :: "nat \<Rightarrow> 'a coroutine \<Rightarrow> 'a coroutine" where
  "run_until_complete l co w =
     (if l \<in> closed w then (Inl (RuntimeError EventLoopClosed), w)
      else if is_running l w then (Inl (RuntimeError AlreadyRunning), w)
      else if running w \<noteq> None then (Inl (RuntimeError AnotherLoopRunning), w)
      else (case co (w\<lparr>running := Some l, driven := driven w @ [l]\<rparr>) of
              (r, w') \<Rightarrow> (r, w'\<lparr>running := None\<rparr>)))"

text \<open>
  \<open>Client.__init__\<close>: the facade keeps the loop \<open>get_event_loop\<close> gave it; when that
  raises, no facade is made.
\<close>

record Client =
  loop :: nat

definition Client_init :: "world \<Rightarrow> (error + Client) \<times> world" where
  "Client_init w =
     (case get_event_loop w of
        (Inl e, w') \<Rightarrow> (Inl e, w')
      | (Inr l, w') \<Rightarrow> (Inr \<lparr>loop = l\<rparr>, w'))"

text \<open>
  What a call through the facade hands back: the finished result, or the coroutine object
  itself, not started.
\<close>

datatype 'a returned = Finished 'a | Pending "world \<Rightarrow> (error + 'a) \<times> world"

definition run_coroutine ::
  "Client \<Rightarrow> ('x \<Rightarrow> 'a coroutine) \<Rightarrow> 'x \<Rightarrow> world \<Rightarrow> (error + 'a returned) \<times> world" where
  "run_coroutine self coroutine args w =
     (if is_running (loop self) w then (Inr (Pending (coroutine args)), w)
      else (case run_until_complete (loop self) (coroutine args) w of
              (Inl e, w') \<Rightarrow> (Inl e, w')
            | (Inr r, w') \<Rightarrow> (Inr (Finished r), w')))"

text \<open>
  \<open>__getattribute__\<close> on the name of an operation: the method of \<open>HALFTIME\<close> is a coroutine
  function, so the caller gets \<open>__run_coroutine\<close> applied to it, and calls that with the
  arguments.
\<close>

definition Client_call ::
  "collaborators \<Rightarrow> Client \<Rightarrow> operation \<Rightarrow> world \<Rightarrow> (error + result returned) \<times> world" where
  "Client_call cl self op w = run_coroutine self (HALFTIME_method cl) op w"

definition await :: "'a coroutine \<Rightarrow> 'a coroutine" where
  "await co w = co w"

fun blocking_calls :: "collaborators \<Rightarrow> Client \<Rightarrow> operation list \<Rightarrow> world \<Rightarrow> world" where
  "blocking_calls cl self [] w = w"
| "blocking_calls cl self (op # ops) w = blocking_calls cl self ops (snd (Client_call cl self op w))"

section \<open>Agreement of a record with the mapping it was built from\<close>

text \<open>
  What "the record's field values equal the input mapping's values" says, field by field:
  a plain field holds the mapping's value under the field's name; a timestamp field holds
  the normalized image of the mapping's value.
\<close>

definition IPSW_matches :: "(string \<times> json) list \<Rightarrow> IPSW \<Rightarrow> bool" where
  "IPSW_matches kw r =
     (map_of kw ''identifier'' = Some (IPSW.identifier r)
      \<and> map_of kw ''buildid'' = Some (IPSW.buildid r)
      \<and> map_of kw ''version'' = Some (IPSW.version r)
      \<and> map_of kw ''url'' = Some (IPSW.url r)
      \<and> map_of kw ''filesize'' = Some (IPSW.filesize r)
      \<and> map_of kw ''sha1sum'' = Some (sha1sum r)
      \<and> map_of kw ''md5sum'' = Some (md5sum r)
      \<and> map_option to_dt (map_of kw ''releasedate'') = Some (Inr (IPSW.releasedate r))
      \<and> map_option to_dt (map_of kw ''uploaddate'') = Some (Inr (IPSW.uploaddate r))
      \<and> map_of kw ''signed'' = Some (IPSW.signed r))"

definition FirmwareKeys_matches :: "(string \<times> json) list \<Rightarrow> FirmwareKeys \<Rightarrow> bool" where
  "FirmwareKeys_matches kw r =
     (map_of kw ''image'' = Some (image' r)
      \<and> map_of kw ''filename'' = Some (filename r)
      \<and> map_of kw ''kbag'' = Some (kbag r)
      \<and> map_of kw ''key'' = Some (key r)
      \<and> map_of kw ''iv'' = Some (iv r)
      \<and> map_option to_dt (map_of kw ''date'') = Some (Inr (date r)))"

definition iDevice_matches :: "(string \<times> json) list \<Rightarrow> iDevice \<Rightarrow> bool" where
  "iDevice_matches kv dev =
     (map_option Decoded (map_of kv ''name'') = Some (name dev)
      \<and> map_option Decoded (map_of kv ''identifier'') = Some (iDevice.identifier dev)
      \<and> map_option Decoded (map_of kv ''boardconfig'') = Some (boardconfig dev)
      \<and> map_option Decoded (map_of kv ''platform'') = Some (platform dev)
      \<and> map_option Decoded (map_of kv ''cpid'') = Some (cpid dev)
      \<and> map_option Decoded (map_of kv ''bdid'') = Some (bdid dev)
      \<and> map_option Decoded (map_of kv ''boards'') = Some (boards dev))"

definition DeviceKeys_matches :: "(string \<times> json) list \<Rightarrow> DeviceKeys \<Rightarrow> bool" where
  "DeviceKeys_matches kv ks =
     (map_option Decoded (map_of kv ''identifier'') = Some (DeviceKeys.identifier ks)
      \<and> map_option Decoded (map_of kv ''buildid'') = Some (DeviceKeys.buildid ks)
      \<and> map_option Decoded (map_of kv ''codename'') = Some (codename ks)
      \<and> map_option Decoded (map_of kv ''baseband'') = Some (baseband ks)
      \<and> map_option Decoded (map_of kv ''updateramdiskexists'') = Some (updateramdiskexists ks)
      \<and> map_option Decoded (map_of kv ''restoreramdiskexists'') = Some (restoreramdiskexists ks))"

section \<open>Example payloads\<close>

definition example_firmware :: "string \<Rightarrow> json" where
  "example_firmware build =
     JObj [(''identifier'', JStr ''iPhone12,1''), (''buildid'', JStr build),
       (''version'', JStr ''15.0''), (''url'', JStr ''http://x/fw.ipsw''),
       (''filesize'', JInt 1000), (''sha1sum'', JStr ''a''), (''md5sum'', JStr ''b''),
       (''releasedate'', JNull), (''uploaddate'', JStr ''2021-09-20T18:00:00Z''),
       (''signed'', JBool True)]"

definition example_device :: json where
  "example_device =
     JObj [(''name'', JStr ''iPhone 11''), (''identifier'', JStr ''iPhone12,1''),
       (''boardconfig'', JStr ''D421AP''), (''platform'', JStr ''t8030''),
       (''cpid'', JStr ''0x8030''), (''bdid'', JStr ''0x08''),
       (''firmwares'', JList [example_firmware ''19A5297e'', example_firmware ''19A344'']),
       (''boards'', JList [])]"

definition example_key :: "string \<Rightarrow> json" where
  "example_key img =
     JObj [(''image'', JStr img), (''filename'', JStr ''Firmware/all_flash/x.im4p''),
       (''kbag'', JStr ''00''), (''key'', JStr ''11''), (''iv'', JStr ''22''),
       (''date'', JStr ''2021-09-20T18:00:00Z'')]"

definition example_keyset :: json where
  "example_keyset =
     JObj [(''identifier'', JStr ''iPhone12,1''), (''buildid'', JStr ''19A344''),
       (''codename'', JStr ''SkyA''), (''baseband'', JNull),
       (''updateramdiskexists'', JBool True), (''restoreramdiskexists'', JBool False),
       (''keys'', JList [example_key ''iBoot'', example_key ''LLB'', example_key ''SEP''])]"

definition example_IPSW :: "string \<Rightarrow> IPSW" where
  "example_IPSW build =
     \<lparr>IPSW.identifier = JStr ''iPhone12,1'', IPSW.buildid = JStr build,
      IPSW.version = JStr ''15.0'', IPSW.url = JStr ''http://x/fw.ipsw'',
      IPSW.filesize = JInt 1000, sha1sum = JStr ''a'', md5sum = JStr ''b'',
      IPSW.releasedate = None,
      IPSW.uploaddate = Some \<lparr>year = 2021, month = 9, day = 20, hour = 18, minute = 0,
        second = 0, tzinfo = Some tzutc\<rparr>,
      IPSW.signed = JBool True\<rparr>"

definition example_iDevice :: iDevice where
  "example_iDevice =
     \<lparr>name = Decoded (JStr ''iPhone 11''), iDevice.identifier = Decoded (JStr ''iPhone12,1''),
      boardconfig = Decoded (JStr ''D421AP''), platform = Decoded (JStr ''t8030''),
      cpid = Decoded (JStr ''0x8030''), bdid = Decoded (JStr ''0x08''),
      firmwares = IPSWList [example_IPSW ''19A5297e'', example_IPSW ''19A344''],
      boards = Decoded (JList [])\<rparr>"

definition example_FirmwareKeys :: "string \<Rightarrow> FirmwareKeys" where
  "example_FirmwareKeys img =
     \<lparr>image' = JStr img, filename = JStr ''Firmware/all_flash/x.im4p'', kbag = JStr ''00'',
      key = JStr ''11'', iv = JStr ''22'',
      date = Some \<lparr>year = 2021, month = 9, day = 20, hour = 18, minute = 0, second = 0,
        tzinfo = Some tzutc\<rparr>\<rparr>"

definition example_DeviceKeys :: DeviceKeys where
  "example_DeviceKeys =
     \<lparr>DeviceKeys.identifier = Decoded (JStr ''iPhone12,1''),
      DeviceKeys.buildid = Decoded (JStr ''19A344''), codename = Decoded (JStr ''SkyA''),
      baseband = Decoded JNull, updateramdiskexists = Decoded (JBool True),
      restoreramdiskexists = Decoded (JBool False),
      keys = FirmwareKeysList [example_FirmwareKeys ''iBoot'', example_FirmwareKeys ''LLB'',
        example_FirmwareKeys ''SEP'']\<rparr>"












definition example_key_extra :: json where
  "example_key_extra =
     JObj [(''image'', JStr ''iBoot''), (''filename'', JStr ''Firmware/all_flash/x.im4p''),
       (''kbag'', JStr ''00''), (''key'', JStr ''11''), (''iv'', JStr ''22''),
       (''date'', JStr ''2021-09-20T18:00:00Z''), (''bogus'', JInt 1)]"

definition example_keyset_extra :: json where
  "example_keyset_extra =
     JObj [(''identifier'', JStr ''iPhone12,1''), (''buildid'', JStr ''19A344''),
       (''codename'', JStr ''SkyA''), (''baseband'', JNull),
       (''updateramdiskexists'', JBool True), (''restoreramdiskexists'', JBool False),
       (''keys'', JList [example_key_extra])]"

section \<open>Omitted fields\<close>



section \<open>Properties of keyword binding\<close>

lemma bind_keywords_None:
  "(bind_keywords cls ps kw = None) = (\<forall>k \<in> fst ` set kw. k \<noteq> ''self'' \<and> k \<in> set ps)"
  by (induction kw) (auto split: if_splits)

lemma bind_keywords_Some:
  "bind_keywords cls ps kw = Some e \<Longrightarrow>
     \<exists>k. k \<in> fst ` set kw \<and>
       (e = TypeError (MultipleValues cls k) \<and> k = ''self''
        \<or> e = TypeError (UnexpectedKeyword cls k) \<and> k \<notin> set ps)"
proof (induction kw)
  case Nil
  then show ?case by simp
next
  case (Cons p kw)
  obtain k v where p: "p = (k, v)" by (cases p)
  show ?case
  proof (cases "k = ''self'' \<or> k \<notin> set ps")
    case True
    with Cons.prems p show ?thesis by (auto split: if_splits)
  next
    case False
    with Cons.prems p have "bind_keywords cls ps kw = Some e" by simp
    from Cons.IH [OF this] show ?thesis by auto
  qed
qed

lemma bind_keywords_cong:
  "map fst kw = map fst kw' \<Longrightarrow> bind_keywords cls ps kw = bind_keywords cls ps kw'"
proof (induction kw arbitrary: kw')
  case Nil
  then show ?case by simp
next
  case (Cons p kw)
  then obtain p' kw'' where k: "kw' = p' # kw''" by (cases kw') auto
  obtain k v where p: "p = (k, v)" by (cases p)
  obtain k' v' where p': "p' = (k', v')" by (cases p')
  from Cons.prems k p p' have "k' = k" and "map fst kw = map fst kw''" by auto
  with Cons.IH [of kw''] k p p' show ?case by simp
qed

lemma missing_arguments_set:
  "set (missing_arguments ps kw) = set ps - fst ` set kw"
  by (auto simp: missing_arguments_def map_of_eq_None_iff)

lemma missing_arguments_cong:
  assumes "map fst kw = map fst kw'"
  shows "missing_arguments ps kw = missing_arguments ps kw'"
proof -
  from assms have "set (map fst kw) = set (map fst kw')" by simp
  then have "fst ` set kw = fst ` set kw'" by simp
  then have "(map_of kw f = None) = (map_of kw' f = None)" for f
    by (simp add: map_of_eq_None_iff)
  then show ?thesis by (simp add: missing_arguments_def)
qed

lemma bind_arguments_cong:
  assumes "map fst kw = map fst kw'"
  shows "(bind_arguments cls ps kw = Inl e) = (bind_arguments cls ps kw' = Inl e)"
  using bind_keywords_cong [OF assms, of cls ps] missing_arguments_cong [OF assms, of ps]
  by (simp add: bind_arguments_def split: option.splits)

lemma bind_arguments_undeclared:
  assumes "k \<in> fst ` set kw" and "k \<notin> set ps"
  shows "\<exists>k'. k' \<in> fst ` set kw \<and>
           (bind_arguments cls ps kw = Inl (TypeError (MultipleValues cls k')) \<and> k' = ''self''
            \<or> bind_arguments cls ps kw = Inl (TypeError (UnexpectedKeyword cls k'))
              \<and> k' \<notin> set ps)"
proof -
  from assms have "bind_keywords cls ps kw \<noteq> None"
    by (auto simp: bind_keywords_None)
  then obtain e where e: "bind_keywords cls ps kw = Some e" by auto
  from bind_keywords_Some [OF e] e show ?thesis
    by (auto simp: bind_arguments_def)
qed

lemma bind_arguments_Inr:
  assumes "bind_arguments cls ps kw = Inr arg"
  shows "fst ` set kw \<subseteq> set ps" and "set ps \<subseteq> fst ` set kw"
    and "\<And>f. f \<in> set ps \<Longrightarrow> map_of kw f = Some (arg f)"
proof -
  from assms have n: "bind_keywords cls ps kw = None" and m: "missing_arguments ps kw = []"
    and a: "arg = (\<lambda>f. the (map_of kw f))"
    by (auto simp: bind_arguments_def split: option.splits if_splits)
  from n show "fst ` set kw \<subseteq> set ps" by (auto simp: bind_keywords_None)
  from m show sub: "set ps \<subseteq> fst ` set kw"
    using missing_arguments_set [of ps kw] by auto
  fix f assume "f \<in> set ps"
  with sub have "f \<in> fst ` set kw" by auto
  then have "map_of kw f \<noteq> None" by (simp add: map_of_eq_None_iff)
  with a show "map_of kw f = Some (arg f)" by auto
qed





lemma init_bind_error:
  "bind_arguments ''IPSW'' IPSW_fields kw = Inl e \<Longrightarrow> IPSW_init kw = Inl e"
  "bind_arguments ''FirmwareKeys'' FirmwareKeys_fields kw = Inl e \<Longrightarrow> FirmwareKeys_init kw = Inl e"
  "bind_arguments ''OTA'' OTA_fields kw = Inl e \<Longrightarrow> OTA_init kw = Inl e"
  "bind_arguments ''DeviceKeys'' DeviceKeys_fields kp = Inl e \<Longrightarrow> DeviceKeys_init kp = Inl e"
  "bind_arguments ''iDevice'' iDevice_fields kp = Inl e \<Longrightarrow> iDevice_init kp = Inl e"
  by (simp_all add: IPSW_init_def FirmwareKeys_init_def OTA_init_def DeviceKeys_init_def
      iDevice_init_def)


lemma init_undeclared:
  assumes "k \<in> fst ` set kw" and "k \<in> fst ` set kp"
  shows "k \<notin> set IPSW_fields \<Longrightarrow> \<exists>t. IPSW_init kw = Inl (TypeError t)"
    and "k \<notin> set FirmwareKeys_fields \<Longrightarrow> \<exists>t. FirmwareKeys_init kw = Inl (TypeError t)"
    and "k \<notin> set OTA_fields \<Longrightarrow> \<exists>t. OTA_init kw = Inl (TypeError t)"
    and "k \<notin> set DeviceKeys_fields \<Longrightarrow> \<exists>t. DeviceKeys_init kp = Inl (TypeError t)"
    and "k \<notin> set iDevice_fields \<Longrightarrow> \<exists>t. iDevice_init kp = Inl (TypeError t)"
  using bind_arguments_undeclared [OF assms(1), of IPSW_fields "''IPSW''"]
    bind_arguments_undeclared [OF assms(1), of FirmwareKeys_fields "''FirmwareKeys''"]
    bind_arguments_undeclared [OF assms(1), of OTA_fields "''OTA''"]
    bind_arguments_undeclared [OF assms(2), of DeviceKeys_fields "''DeviceKeys''"]
    bind_arguments_undeclared [OF assms(2), of iDevice_fields "''iDevice''"]
    init_bind_error(1) [of kw] init_bind_error(2) [of kw] init_bind_error(3) [of kw]
    init_bind_error(4) [of kp] init_bind_error(5) [of kp]
  by blast+

section \<open>List comprehensions\<close>

lemma comprehension_Inr:
  "(comprehension f xs = Inr ys) = (map f xs = map Inr ys)"
proof (induction xs arbitrary: ys)
  case Nil
  then show ?case by auto
next
  case (Cons x xs)
  show ?case
  proof (cases "f x")
    case (Inl e)
    then show ?thesis by (cases ys) auto
  next
    case (Inr y)
    show ?thesis
    proof (cases "comprehension f xs")
      case (Inl e)
      with Inr Cons.IH show ?thesis by (cases ys) auto
    next
      case r: (Inr zs)
      with Inr Cons.IH [of zs] Cons.IH show ?thesis by (cases ys) auto
    qed
  qed
qed

lemma comprehension_nth:
  assumes "comprehension f xs = Inr ys"
  shows "length ys = length xs" and "\<And>i. i < length xs \<Longrightarrow> f (xs ! i) = Inr (ys ! i)"
proof -
  from assms have m: "map f xs = map Inr ys" by (simp add: comprehension_Inr)
  then show l: "length ys = length xs" by (metis length_map)
  fix i assume "i < length xs"
  with m l show "f (xs ! i) = Inr (ys ! i)" by (metis nth_map)
qed



lemma comprehension_some_failure:
  "x \<in> set xs \<Longrightarrow> f x = Inl e \<Longrightarrow> \<exists>e'. comprehension f xs = Inl e'"
proof (induction xs)
  case Nil
  then show ?case by simp
next
  case (Cons y xs)
  show ?case
  proof (cases "f y")
    case (Inl a)
    then show ?thesis by simp
  next
    case (Inr r)
    with Cons show ?thesis by (cases "x = y") (auto split: sum.splits)
  qed
qed

section \<open>Lookups on a mapping\<close>

lemma new_JObj:
  "IPSW_new (JObj kw) = IPSW_init kw"
  "OTA_new (JObj kw) = OTA_init kw"
  "FirmwareKeys_new (JObj kw) = FirmwareKeys_init kw"
  "DeviceKeys_new (JObj kw) = DeviceKeys_init (decoded kw)"
  by (simp_all add: IPSW_new_def OTA_new_def FirmwareKeys_new_def DeviceKeys_new_def spread_def
      and_then_def)

lemma list_lookup_JList:
  "ipsw_version_of (JList xs) = comprehension IPSW_new xs"
  "ota_version_of (JList xs) = comprehension OTA_new xs"
  "keys_device_of (JList xs) = comprehension DeviceKeys_new xs"
  by (simp_all add: ipsw_version_of_def ota_version_of_def keys_device_of_def iterate_def
      and_then_def)

lemma map_fst_decoded: "map fst (decoded kv) = map fst kv"
  by (induction kv) (auto simp: decoded_def)


lemma map_of_setitem:
  "map_of (setitem k v kw) k' = (if k' = k then Some v else map_of kw k')"
  by (induction kw) auto

lemma map_of_decoded: "map_of (decoded kv) k = map_option Decoded (map_of kv k)"
  by (induction kv) (auto simp: decoded_def)


lemma device_of_JList:
  "map_of kv ''firmwares'' = Some (JList fs) \<Longrightarrow>
     device_of (JObj kv) =
       and_then (comprehension IPSW_new fs)
         (\<lambda>fl. iDevice_init (setitem ''firmwares'' (IPSWList fl) (decoded kv)))"
  by (simp add: device_of_def iterate_def and_then_def)

lemma keys_of_JList:
  "map_of kv ''keys'' = Some (JList xs) \<Longrightarrow>
     keys_of (JObj kv) =
       and_then (comprehension FirmwareKeys_new xs)
         (\<lambda>kl. DeviceKeys_init (setitem ''keys'' (FirmwareKeysList kl) (decoded kv)))"
  by (simp add: keys_of_def iterate_def and_then_def)









lemma nested_some_failure:
  assumes "JObj kw \<in> set xs" and "IPSW_init kw = Inl e"
    and "map_of kv ''firmwares'' = Some (JList xs)"
  shows "\<exists>e'. device_of (JObj kv) = Inl e'"
  using comprehension_some_failure [of "JObj kw" xs IPSW_new e] assms
  by (auto simp: device_of_JList new_JObj and_then_def)

lemma nested_key_some_failure:
  assumes "JObj kw \<in> set xs" and "FirmwareKeys_init kw = Inl e"
    and "map_of kv ''keys'' = Some (JList xs)"
  shows "\<exists>e'. keys_of (JObj kv) = Inl e'"
  using comprehension_some_failure [of "JObj kw" xs FirmwareKeys_new e] assms
  by (auto simp: keys_of_JList new_JObj and_then_def)

section \<open>Required fields\<close>



lemmas strptime_defs =
  to_dt_def strptime_def match_format_def split_fields_def year_field_def num_field_def
  day_field_def dec_def digit_def valid_datetime_def days_in_month_def is_leap_def

lemmas construction_defs =
  and_then_def iterate_def spread_def decoded_def bind_arguments_def missing_arguments_def
  IPSW_new_def OTA_new_def FirmwareKeys_new_def DeviceKeys_new_def
  IPSW_init_def OTA_init_def FirmwareKeys_init_def DeviceKeys_init_def iDevice_init_def
  IPSW_fields_def OTA_fields_def FirmwareKeys_fields_def DeviceKeys_fields_def iDevice_fields_def

lemma example_IPSW_new: "IPSW_new (example_firmware b) = Inr (example_IPSW b)"
  by (simp add: example_firmware_def example_IPSW_def construction_defs strptime_defs)


lemma example_FirmwareKeys_new: "FirmwareKeys_new (example_key i) = Inr (example_FirmwareKeys i)"
  by (simp add: example_key_def example_FirmwareKeys_def construction_defs strptime_defs)

lemma example_device_of: "device_of example_device = Inr example_iDevice"
  by (simp add: example_device_def example_iDevice_def device_of_def example_IPSW_new
      and_then_def iterate_def decoded_def iDevice_init_def bind_arguments_def
      missing_arguments_def iDevice_fields_def)

lemma example_keys_of: "keys_of example_keyset = Inr example_DeviceKeys"
  by (simp add: example_keyset_def example_DeviceKeys_def keys_of_def example_FirmwareKeys_new
      and_then_def iterate_def decoded_def DeviceKeys_init_def bind_arguments_def
      missing_arguments_def DeviceKeys_fields_def)




section \<open>The documentation lookup\<close>

text \<open>
  Claim C9: the OTA documentation lookup hands the raw decoded text back to its caller.
  The code does not: whatever text the transport gives, the value of \<open>ota_docs\<close> is
  \<open>None\<close> (the text goes to standard output); only a transport failure is passed on.
\<close>

theorem ota_docs_returns_none:
  "fst (ota_docs cl ident ver w) =
     (case HTTP_ipsw_response cl (''/ota/documentation/'' @ ident @ ''/'' @ ver) ''text'' of
        Inl e \<Rightarrow> Inl e
      | Inr data \<Rightarrow> Inr JNull)"
  by (simp add: ota_docs_def HTTP_ipsw_def perform_def split: sum.splits)

section \<open>Undeclared keys\<close>

text \<open>
  A mapping with a key that is no declared field is refused wherever it is spread into a
  record constructor: by the constructors, by the single lookups, by the list lookups
  for each element, and by the composite lookups for the outer mapping and for each
  element of the nested list.
\<close>

lemma lookup_undeclared:
  assumes k: "k \<in> fst ` set kw"
  shows "k \<notin> set IPSW_fields \<Longrightarrow> \<exists>t. ipsw_of (JObj kw) = Inl (TypeError t)"
    and "k \<notin> set OTA_fields \<Longrightarrow> \<exists>t. ota_of (JObj kw) = Inl (TypeError t)"
    and "k \<notin> set IPSW_fields \<Longrightarrow> JObj kw \<in> set xs \<Longrightarrow> \<exists>e. ipsw_version_of (JList xs) = Inl e"
    and "k \<notin> set OTA_fields \<Longrightarrow> JObj kw \<in> set xs \<Longrightarrow> \<exists>e. ota_version_of (JList xs) = Inl e"
    and "k \<notin> set DeviceKeys_fields \<Longrightarrow> JObj kw \<in> set xs \<Longrightarrow>
           \<exists>e. keys_device_of (JList xs) = Inl e"
    and "k \<notin> set IPSW_fields \<Longrightarrow> JObj kw \<in> set xs \<Longrightarrow>
           map_of kv ''firmwares'' = Some (JList xs) \<Longrightarrow> \<exists>e. device_of (JObj kv) = Inl e"
    and "k \<notin> set FirmwareKeys_fields \<Longrightarrow> JObj kw \<in> set xs \<Longrightarrow>
           map_of kv ''keys'' = Some (JList xs) \<Longrightarrow> \<exists>e. keys_of (JObj kv) = Inl e"
proof -
  have d: "k \<in> fst ` set (decoded kw)"
    using k map_fst_decoded [of kw] by (metis list.set_map)
  show "k \<notin> set IPSW_fields \<Longrightarrow> \<exists>t. ipsw_of (JObj kw) = Inl (TypeError t)"
    using init_undeclared(1) [OF k d] by (simp add: ipsw_of_def new_JObj)
  show "k \<notin> set OTA_fields \<Longrightarrow> \<exists>t. ota_of (JObj kw) = Inl (TypeError t)"
    using init_undeclared(3) [OF k d] by (simp add: ota_of_def new_JObj)
  show "k \<notin> set IPSW_fields \<Longrightarrow> JObj kw \<in> set xs \<Longrightarrow> \<exists>e. ipsw_version_of (JList xs) = Inl e"
    using init_undeclared(1) [OF k d] comprehension_some_failure [of "JObj kw" xs IPSW_new]
    by (auto simp: list_lookup_JList new_JObj)
  show "k \<notin> set OTA_fields \<Longrightarrow> JObj kw \<in> set xs \<Longrightarrow> \<exists>e. ota_version_of (JList xs) = Inl e"
    using init_undeclared(3) [OF k d] comprehension_some_failure [of "JObj kw" xs OTA_new]
    by (auto simp: list_lookup_JList new_JObj)
  show "k \<notin> set DeviceKeys_fields \<Longrightarrow> JObj kw \<in> set xs \<Longrightarrow>
           \<exists>e. keys_device_of (JList xs) = Inl e"
    using init_undeclared(4) [OF k d] comprehension_some_failure [of "JObj kw" xs DeviceKeys_new]
    by (auto simp: list_lookup_JList new_JObj)
  show "k \<notin> set IPSW_fields \<Longrightarrow> JObj kw \<in> set xs \<Longrightarrow>
           map_of kv ''firmwares'' = Some (JList xs) \<Longrightarrow> \<exists>e. device_of (JObj kv) = Inl e"
    using init_undeclared(1) [OF k d] nested_some_failure [of kw xs _ kv] by blast
  show "k \<notin> set FirmwareKeys_fields \<Longrightarrow> JObj kw \<in> set xs \<Longrightarrow>
           map_of kv ''keys'' = Some (JList xs) \<Longrightarrow> \<exists>e. keys_of (JObj kv) = Inl e"
    using init_undeclared(2) [OF k d] nested_key_some_failure [of kw xs _ kv] by blast
qed

text \<open>
  Claim C10: a payload mapping with a key that is no declared field of its record makes
  the whole normalization fail. The device-keys lookup diverges: it builds no key records
  from the \<open>keys\<close> list of a key set, so a key mapping with the undeclared key \<open>bogus\<close> is
  accepted and comes back untouched inside the key set, where the firmware-keys lookup
  raises on the same key set, as the key-record constructor does on the key mapping. Without
  \<open>bogus\<close> the key mapping is one the constructor accepts.
\<close>

theorem keys_device_accepts_undeclared_key:
  "keys_device_of (JList [example_keyset_extra]) =
     Inr [\<lparr>DeviceKeys.identifier = Decoded (JStr ''iPhone12,1''),
            DeviceKeys.buildid = Decoded (JStr ''19A344''),
            codename = Decoded (JStr ''SkyA''), baseband = Decoded JNull,
            updateramdiskexists = Decoded (JBool True),
            restoreramdiskexists = Decoded (JBool False),
            keys = Decoded (JList [example_key_extra])\<rparr>]
   \<and> keys_of example_keyset_extra = Inl (TypeError (UnexpectedKeyword ''FirmwareKeys'' ''bogus''))
   \<and> FirmwareKeys_new example_key_extra =
       Inl (TypeError (UnexpectedKeyword ''FirmwareKeys'' ''bogus''))
   \<and> example_key_extra =
       JObj ((''image'', JStr ''iBoot'') # (''filename'', JStr ''Firmware/all_flash/x.im4p'')
         # (''kbag'', JStr ''00'') # (''key'', JStr ''11'') # (''iv'', JStr ''22'')
         # (''date'', JStr ''2021-09-20T18:00:00Z'') # [(''bogus'', JInt 1)])
   \<and> FirmwareKeys_new
       (JObj [(''image'', JStr ''iBoot''), (''filename'', JStr ''Firmware/all_flash/x.im4p''),
          (''kbag'', JStr ''00''), (''key'', JStr ''11''), (''iv'', JStr ''22''),
          (''date'', JStr ''2021-09-20T18:00:00Z'')]) = Inr (example_FirmwareKeys ''iBoot'')"
proof -
  have n: "FirmwareKeys_new example_key_extra =
       Inl (TypeError (UnexpectedKeyword ''FirmwareKeys'' ''bogus''))"
    by (simp add: example_key_extra_def FirmwareKeys_new_def spread_def and_then_def
        FirmwareKeys_init_def bind_arguments_def FirmwareKeys_fields_def)
  have "keys_device_of (JList [example_keyset_extra]) =
     Inr [\<lparr>DeviceKeys.identifier = Decoded (JStr ''iPhone12,1''),
            DeviceKeys.buildid = Decoded (JStr ''19A344''),
            codename = Decoded (JStr ''SkyA''), baseband = Decoded JNull,
            updateramdiskexists = Decoded (JBool True),
            restoreramdiskexists = Decoded (JBool False),
            keys = Decoded (JList [example_key_extra])\<rparr>]"
    by (simp add: example_keyset_extra_def keys_device_of_def iterate_def and_then_def
        DeviceKeys_new_def spread_def decoded_def DeviceKeys_init_def bind_arguments_def
        missing_arguments_def DeviceKeys_fields_def)
  moreover have "keys_of example_keyset_extra =
      Inl (TypeError (UnexpectedKeyword ''FirmwareKeys'' ''bogus''))"
    by (simp add: example_keyset_extra_def keys_of_def iterate_def and_then_def n)
  moreover have "example_key_extra =
       JObj ((''image'', JStr ''iBoot'') # (''filename'', JStr ''Firmware/all_flash/x.im4p'')
         # (''kbag'', JStr ''00'') # (''key'', JStr ''11'') # (''iv'', JStr ''22'')
         # (''date'', JStr ''2021-09-20T18:00:00Z'') # [(''bogus'', JInt 1)])"
    by (simp add: example_key_extra_def)
  moreover have "FirmwareKeys_new
       (JObj [(''image'', JStr ''iBoot''), (''filename'', JStr ''Firmware/all_flash/x.im4p''),
          (''kbag'', JStr ''00''), (''key'', JStr ''11''), (''iv'', JStr ''22''),
          (''date'', JStr ''2021-09-20T18:00:00Z'')]) = Inr (example_FirmwareKeys ''iBoot'')"
    using example_FirmwareKeys_new [of "''iBoot''"] by (simp add: example_key_def)
  ultimately show ?thesis using n by (intro conjI)
qed

section \<open>List-valued lookups\<close>

text \<open>
  Claim C5: each list-valued lookup (firmware by version, OTA by version, keys of a
  device) builds one record from each element of the input sequence, in the same order:
  it returns the list \<open>ys\<close> exactly when constructing from the i-th input gives the i-th
  element of \<open>ys\<close> for every i (so the lengths agree); the empty sequence gives the empty
  list, not an error.
\<close>

theorem list_lookup_elementwise:
  "ipsw_version_of (JList []) = Inr []
   \<and> ota_version_of (JList []) = Inr []
   \<and> keys_device_of (JList []) = Inr []
   \<and> (ipsw_version_of (JList xs) = Inr ys) = (map IPSW_new xs = map Inr ys)
   \<and> (ota_version_of (JList xs) = Inr os) = (map OTA_new xs = map Inr os)
   \<and> (keys_device_of (JList xs) = Inr ks) = (map DeviceKeys_new xs = map Inr ks)"
  by (simp add: ipsw_version_of_def ota_version_of_def keys_device_of_def iterate_def
      and_then_def comprehension_Inr)

section \<open>Key sets\<close>

text \<open>
  Claim C7: the \<open>keys\<close> field of every returned key set, the ones of the device-keys lookup
  included, is a list of typed key records. The device-keys lookup spreads each decoded
  mapping straight into the key-set record, so its \<open>keys\<close> field stays the decoded list
  of raw mappings; the firmware-keys lookup converts the list first.
\<close>

theorem keys_device_keeps_raw_keys:
  "keys_device_of (JList [JObj [(''identifier'', JStr ''iPhone12,1''), (''buildid'', JStr ''19A344''),
       (''codename'', JStr ''SkyA''), (''baseband'', JNull),
       (''updateramdiskexists'', JBool True), (''restoreramdiskexists'', JBool True),
       (''keys'', JList [JObj [(''image'', JStr ''iBoot''), (''filename'', JStr ''iBoot.img4''),
          (''kbag'', JStr ''00''), (''key'', JStr ''11''), (''iv'', JStr ''22''),
          (''date'', JStr ''2021-09-20T18:00:00Z'')]])]])
   = Inr [\<lparr>DeviceKeys.identifier = Decoded (JStr ''iPhone12,1''),
            DeviceKeys.buildid = Decoded (JStr ''19A344''),
            codename = Decoded (JStr ''SkyA''), baseband = Decoded JNull,
            updateramdiskexists = Decoded (JBool True),
            restoreramdiskexists = Decoded (JBool True),
            keys = Decoded (JList [JObj [(''image'', JStr ''iBoot''),
              (''filename'', JStr ''iBoot.img4''), (''kbag'', JStr ''00''), (''key'', JStr ''11''),
              (''iv'', JStr ''22''), (''date'', JStr ''2021-09-20T18:00:00Z'')]])\<rparr>]"
  by (simp add: keys_device_of_def iterate_def and_then_def DeviceKeys_new_def spread_def
      decoded_def DeviceKeys_init_def bind_arguments_def missing_arguments_def
      DeviceKeys_fields_def)

section \<open>Composite lookups\<close>

lemma IPSW_init_matches:
  assumes "IPSW_init kw = Inr r"
  shows "IPSW_matches kw r"
proof -
  from assms obtain arg rd ud where b: "bind_arguments ''IPSW'' IPSW_fields kw = Inr arg"
    and rd: "to_dt (arg ''releasedate'') = Inr rd" and ud: "to_dt (arg ''uploaddate'') = Inr ud"
    and r: "r = \<lparr>IPSW.identifier = arg ''identifier'', IPSW.buildid = arg ''buildid'',
                IPSW.version = arg ''version'', IPSW.url = arg ''url'',
                IPSW.filesize = arg ''filesize'', sha1sum = arg ''sha1sum'',
                md5sum = arg ''md5sum'', IPSW.releasedate = rd, IPSW.uploaddate = ud,
                IPSW.signed = arg ''signed''\<rparr>"
    by (auto simp: IPSW_init_def split: sum.splits)
  have f: "map_of kw f = Some (arg f)" if "f \<in> set IPSW_fields" for f
    using bind_arguments_Inr(3) [OF b that] .
  show ?thesis
    unfolding IPSW_matches_def using rd ud
    by (simp add: r f IPSW_fields_def)
qed

lemma FirmwareKeys_init_matches:
  assumes "FirmwareKeys_init kw = Inr r"
  shows "FirmwareKeys_matches kw r"
proof -
  from assms obtain arg d where b: "bind_arguments ''FirmwareKeys'' FirmwareKeys_fields kw = Inr arg"
    and d: "to_dt (arg ''date'') = Inr d"
    and r: "r = \<lparr>image' = arg ''image'', filename = arg ''filename'', kbag = arg ''kbag'',
                key = arg ''key'', iv = arg ''iv'', date = d\<rparr>"
    by (auto simp: FirmwareKeys_init_def split: sum.splits)
  have f: "map_of kw f = Some (arg f)" if "f \<in> set FirmwareKeys_fields" for f
    using bind_arguments_Inr(3) [OF b that] .
  show ?thesis
    unfolding FirmwareKeys_matches_def using d
    by (simp add: r f FirmwareKeys_fields_def)
qed

lemma iDevice_init_fields:
  assumes "iDevice_init kp = Inr dev"
  shows "map_of kp ''name'' = Some (name dev)"
    and "map_of kp ''identifier'' = Some (iDevice.identifier dev)"
    and "map_of kp ''boardconfig'' = Some (boardconfig dev)"
    and "map_of kp ''platform'' = Some (platform dev)"
    and "map_of kp ''cpid'' = Some (cpid dev)"
    and "map_of kp ''bdid'' = Some (bdid dev)"
    and "map_of kp ''firmwares'' = Some (firmwares dev)"
    and "map_of kp ''boards'' = Some (boards dev)"
proof -
  from assms obtain arg where b: "bind_arguments ''iDevice'' iDevice_fields kp = Inr arg"
    and r: "dev = \<lparr>name = arg ''name'', iDevice.identifier = arg ''identifier'',
                boardconfig = arg ''boardconfig'', platform = arg ''platform'',
                cpid = arg ''cpid'', bdid = arg ''bdid'', firmwares = arg ''firmwares'',
                boards = arg ''boards''\<rparr>"
    by (auto simp: iDevice_init_def split: sum.splits)
  have f: "map_of kp f = Some (arg f)" if "f \<in> set iDevice_fields" for f
    using bind_arguments_Inr(3) [OF b that] .
  show "map_of kp ''name'' = Some (name dev)"
    and "map_of kp ''identifier'' = Some (iDevice.identifier dev)"
    and "map_of kp ''boardconfig'' = Some (boardconfig dev)"
    and "map_of kp ''platform'' = Some (platform dev)"
    and "map_of kp ''cpid'' = Some (cpid dev)"
    and "map_of kp ''bdid'' = Some (bdid dev)"
    and "map_of kp ''firmwares'' = Some (firmwares dev)"
    and "map_of kp ''boards'' = Some (boards dev)"
    by (simp_all add: r f iDevice_fields_def)
qed

lemma DeviceKeys_init_fields:
  assumes "DeviceKeys_init kp = Inr ks"
  shows "map_of kp ''identifier'' = Some (DeviceKeys.identifier ks)"
    and "map_of kp ''buildid'' = Some (DeviceKeys.buildid ks)"
    and "map_of kp ''codename'' = Some (codename ks)"
    and "map_of kp ''baseband'' = Some (baseband ks)"
    and "map_of kp ''updateramdiskexists'' = Some (updateramdiskexists ks)"
    and "map_of kp ''restoreramdiskexists'' = Some (restoreramdiskexists ks)"
    and "map_of kp ''keys'' = Some (keys ks)"
proof -
  from assms obtain arg where b: "bind_arguments ''DeviceKeys'' DeviceKeys_fields kp = Inr arg"
    and r: "ks = \<lparr>DeviceKeys.identifier = arg ''identifier'',
                DeviceKeys.buildid = arg ''buildid'',
                codename = arg ''codename'', baseband = arg ''baseband'',
                updateramdiskexists = arg ''updateramdiskexists'',
                restoreramdiskexists = arg ''restoreramdiskexists'', keys = arg ''keys''\<rparr>"
    by (auto simp: DeviceKeys_init_def split: sum.splits)
  have f: "map_of kp f = Some (arg f)" if "f \<in> set DeviceKeys_fields" for f
    using bind_arguments_Inr(3) [OF b that] .
  show "map_of kp ''identifier'' = Some (DeviceKeys.identifier ks)"
    and "map_of kp ''buildid'' = Some (DeviceKeys.buildid ks)"
    and "map_of kp ''codename'' = Some (codename ks)"
    and "map_of kp ''baseband'' = Some (baseband ks)"
    and "map_of kp ''updateramdiskexists'' = Some (updateramdiskexists ks)"
    and "map_of kp ''restoreramdiskexists'' = Some (restoreramdiskexists ks)"
    and "map_of kp ''keys'' = Some (keys ks)"
    by (simp_all add: r f DeviceKeys_fields_def)
qed

lemma IPSW_new_matches:
  "IPSW_new x = Inr r \<Longrightarrow> \<exists>kw. x = JObj kw \<and> IPSW_matches kw r"
  by (cases x) (auto simp: IPSW_new_def spread_def and_then_def IPSW_init_matches)

lemma FirmwareKeys_new_matches:
  "FirmwareKeys_new x = Inr r \<Longrightarrow> \<exists>kw. x = JObj kw \<and> FirmwareKeys_matches kw r"
  by (cases x) (auto simp: FirmwareKeys_new_def spread_def and_then_def FirmwareKeys_init_matches)

lemma device_of_list:
  assumes "device_of (JObj kv) = Inr dev" and "map_of kv ''firmwares'' = Some (JList fs)"
  shows "\<exists>fl. comprehension IPSW_new fs = Inr fl \<and> firmwares dev = IPSWList fl
           \<and> iDevice_matches kv dev"
proof -
  from assms obtain fl where c: "comprehension IPSW_new fs = Inr fl"
    and i: "iDevice_init (setitem ''firmwares'' (IPSWList fl) (decoded kv)) = Inr dev"
    by (auto simp: device_of_def iterate_def and_then_def split: sum.splits)
  note fs = iDevice_init_fields [OF i, unfolded map_of_setitem map_of_decoded]
  from fs(7) have "firmwares dev = IPSWList fl" by simp
  moreover from fs have "iDevice_matches kv dev"
    by (simp add: iDevice_matches_def)
  ultimately show ?thesis using c by blast
qed

lemma keys_of_list:
  assumes "keys_of (JObj kv) = Inr ks" and "map_of kv ''keys'' = Some (JList xs)"
  shows "\<exists>kl. comprehension FirmwareKeys_new xs = Inr kl \<and> keys ks = FirmwareKeysList kl
           \<and> DeviceKeys_matches kv ks"
proof -
  from assms obtain kl where c: "comprehension FirmwareKeys_new xs = Inr kl"
    and i: "DeviceKeys_init (setitem ''keys'' (FirmwareKeysList kl) (decoded kv)) = Inr ks"
    by (auto simp: keys_of_def iterate_def and_then_def split: sum.splits)
  note fs = DeviceKeys_init_fields [OF i, unfolded map_of_setitem map_of_decoded]
  from fs(7) have "keys ks = FirmwareKeysList kl" by simp
  moreover from fs have "DeviceKeys_matches kv ks"
    by (simp add: DeviceKeys_matches_def)
  ultimately show ?thesis using c by blast
qed

text \<open>
  Claim C6: the device lookup and the firmware-keys lookup convert every element of the
  nested list (\<open>firmwares\<close>, \<open>keys\<close>) to a typed record, put the converted list back into
  the mapping under the same key, and build the outer record from that mapping. So,
  when the lookup returns, the outer record's nested list has the length of the input
  list, its i-th element agrees field by field with the i-th input mapping (timestamps
  normalized), and the other fields are the mapping's values.
\<close>

theorem composite_normalization:
  "(map_of kv ''firmwares'' = Some (JList fs) \<longrightarrow>
      device_of (JObj kv) =
        and_then (comprehension IPSW_new fs)
          (\<lambda>fl. iDevice_init (setitem ''firmwares'' (IPSWList fl) (decoded kv))))
   \<and> (device_of (JObj kv) = Inr dev \<and> map_of kv ''firmwares'' = Some (JList fs) \<longrightarrow>
      (\<exists>fl. firmwares dev = IPSWList fl \<and> length fl = length fs
         \<and> (\<forall>i<length fs. \<exists>kw. fs ! i = JObj kw \<and> IPSW_matches kw (fl ! i)))
      \<and> iDevice_matches kv dev)
   \<and> (map_of kv' ''keys'' = Some (JList xs) \<longrightarrow>
      keys_of (JObj kv') =
        and_then (comprehension FirmwareKeys_new xs)
          (\<lambda>kl. DeviceKeys_init (setitem ''keys'' (FirmwareKeysList kl) (decoded kv'))))
   \<and> (keys_of (JObj kv') = Inr ks \<and> map_of kv' ''keys'' = Some (JList xs) \<longrightarrow>
      (\<exists>kl. keys ks = FirmwareKeysList kl \<and> length kl = length xs
         \<and> (\<forall>i<length xs. \<exists>kw. xs ! i = JObj kw \<and> FirmwareKeys_matches kw (kl ! i)))
      \<and> DeviceKeys_matches kv' ks)"
proof -
  have d: "(\<exists>fl. firmwares dev = IPSWList fl \<and> length fl = length fs
         \<and> (\<forall>i<length fs. \<exists>kw. fs ! i = JObj kw \<and> IPSW_matches kw (fl ! i)))
      \<and> iDevice_matches kv dev"
    if h: "device_of (JObj kv) = Inr dev \<and> map_of kv ''firmwares'' = Some (JList fs)"
  proof -
    from h device_of_list [of kv dev fs] obtain fl
      where c: "comprehension IPSW_new fs = Inr fl" and f: "firmwares dev = IPSWList fl"
        and m: "iDevice_matches kv dev" by blast
    from comprehension_nth [OF c] IPSW_new_matches
    have "length fl = length fs"
      and "\<forall>i<length fs. \<exists>kw. fs ! i = JObj kw \<and> IPSW_matches kw (fl ! i)"
      by blast+
    with f m show ?thesis by blast
  qed
  have k: "(\<exists>kl. keys ks = FirmwareKeysList kl \<and> length kl = length xs
         \<and> (\<forall>i<length xs. \<exists>kw. xs ! i = JObj kw \<and> FirmwareKeys_matches kw (kl ! i)))
      \<and> DeviceKeys_matches kv' ks"
    if h: "keys_of (JObj kv') = Inr ks \<and> map_of kv' ''keys'' = Some (JList xs)"
  proof -
    from h keys_of_list [of kv' ks xs] obtain kl
      where c: "comprehension FirmwareKeys_new xs = Inr kl"
        and f: "keys ks = FirmwareKeysList kl"
        and m: "DeviceKeys_matches kv' ks" by blast
    from comprehension_nth [OF c] FirmwareKeys_new_matches
    have "length kl = length xs"
      and "\<forall>i<length xs. \<exists>kw. xs ! i = JObj kw \<and> FirmwareKeys_matches kw (kl ! i)"
      by blast+
    with f m show ?thesis by blast
  qed
  have d0: "device_of (JObj kv) =
        and_then (comprehension IPSW_new fs)
          (\<lambda>fl. iDevice_init (setitem ''firmwares'' (IPSWList fl) (decoded kv)))"
    if "map_of kv ''firmwares'' = Some (JList fs)"
    using that by (simp add: device_of_def iterate_def and_then_def)
  have k0: "keys_of (JObj kv') =
        and_then (comprehension FirmwareKeys_new xs)
          (\<lambda>kl. DeviceKeys_init (setitem ''keys'' (FirmwareKeysList kl) (decoded kv')))"
    if "map_of kv' ''keys'' = Some (JList xs)"
    using that by (simp add: keys_of_def iterate_def and_then_def)
  from d k d0 k0 show ?thesis by blast
qed

theorem composite_normalization_witness:
  "device_of example_device = Inr example_iDevice
   \<and> (\<exists>fl. firmwares example_iDevice = IPSWList fl \<and> length fl = 2
         \<and> (\<forall>i<2. \<exists>kw. [example_firmware ''19A5297e'', example_firmware ''19A344''] ! i = JObj kw
               \<and> IPSW_matches kw (fl ! i)))
   \<and> keys_of example_keyset = Inr example_DeviceKeys
   \<and> (\<exists>kl. keys example_DeviceKeys = FirmwareKeysList kl \<and> length kl = 3
         \<and> (\<forall>i<3. \<exists>kw. [example_key ''iBoot'', example_key ''LLB'', example_key ''SEP''] ! i = JObj kw
               \<and> FirmwareKeys_matches kw (kl ! i)))"
proof -
  let ?fs = "[example_firmware ''19A5297e'', example_firmware ''19A344'']"
  let ?kv = "[(''name'', JStr ''iPhone 11''), (''identifier'', JStr ''iPhone12,1''),
       (''boardconfig'', JStr ''D421AP''), (''platform'', JStr ''t8030''),
       (''cpid'', JStr ''0x8030''), (''bdid'', JStr ''0x08''),
       (''firmwares'', JList ?fs), (''boards'', JList [])]"
  let ?xs = "[example_key ''iBoot'', example_key ''LLB'', example_key ''SEP'']"
  let ?kv' = "[(''identifier'', JStr ''iPhone12,1''), (''buildid'', JStr ''19A344''),
       (''codename'', JStr ''SkyA''), (''baseband'', JNull),
       (''updateramdiskexists'', JBool True), (''restoreramdiskexists'', JBool False),
       (''keys'', JList ?xs)]"
  have d: "device_of (JObj ?kv) = Inr example_iDevice"
    using example_device_of by (simp add: example_device_def)
  have k: "keys_of (JObj ?kv') = Inr example_DeviceKeys"
    using example_keys_of by (simp add: example_keyset_def)
  have f: "map_of ?kv ''firmwares'' = Some (JList ?fs)" by simp
  have x: "map_of ?kv' ''keys'' = Some (JList ?xs)" by simp
  from composite_normalization [of ?kv ?fs example_iDevice ?kv' ?xs example_DeviceKeys] d k f x
  have "(\<exists>fl. firmwares example_iDevice = IPSWList fl \<and> length fl = length ?fs
         \<and> (\<forall>i<length ?fs. \<exists>kw. ?fs ! i = JObj kw \<and> IPSW_matches kw (fl ! i)))"
    and "(\<exists>kl. keys example_DeviceKeys = FirmwareKeysList kl \<and> length kl = length ?xs
         \<and> (\<forall>i<length ?xs. \<exists>kw. ?xs ! i = JObj kw \<and> FirmwareKeys_matches kw (kl ! i)))"
    by blast+
  then have "(\<exists>fl. firmwares example_iDevice = IPSWList fl \<and> length fl = 2
         \<and> (\<forall>i<2. \<exists>kw. ?fs ! i = JObj kw \<and> IPSW_matches kw (fl ! i)))"
    and "(\<exists>kl. keys example_DeviceKeys = FirmwareKeysList kl \<and> length kl = 3
         \<and> (\<forall>i<3. \<exists>kw. ?xs ! i = JObj kw \<and> FirmwareKeys_matches kw (kl ! i)))"
    by (simp_all only: list.size One_nat_def add_Suc_right add_0_right
        numeral_2_eq_2 numeral_3_eq_3)
  with example_device_of example_keys_of show ?thesis by blast
qed

end
